theory Spec2Isabelle
  imports Main
begin

section \<open>JavaScript strings and numbers\<close>

text \<open>
  A JavaScript string is a \<open>string\<close>; an optional value (\<open>undefined\<close>) is \<open>None\<close>.
  A character is a code unit below 256, which is what the octets of a header value and
  the texts written here hold. Numbers are integers: attempt counters, second-resolution timestamps and millisecond
  delays. The model is exact as long as the magnitudes stay below \<open>2^53\<close>, where
  JavaScript numbers are exact integers and print in plain decimal.
\<close>

text \<open>\<open>!s\<close> for a string that may be \<open>undefined\<close>: true for \<open>undefined\<close> and for \<open>""\<close>.\<close>

fun falsy :: "string option \<Rightarrow> bool" where
  "falsy None = True"
| "falsy (Some s) = (s = [])"

fun startsWith :: "string \<Rightarrow> string \<Rightarrow> bool" where
  "startsWith s [] = True"
| "startsWith [] (c # cs) = False"
| "startsWith (x # xs) (c # cs) = (x = c \<and> startsWith xs cs)"

text \<open>\<open>s.includes(sub)\<close>: \<open>sub\<close> occurs in \<open>s\<close> as a contiguous run.\<close>

fun js_includes :: "string \<Rightarrow> string \<Rightarrow> bool" where
  "js_includes [] sub = (sub = [])"
| "js_includes (x # xs) sub = (startsWith (x # xs) sub \<or> js_includes xs sub)"

definition digit_char :: "nat \<Rightarrow> char" where
  "digit_char d = ''0123456789'' ! d"

text \<open>The decimal digits of a natural number, most significant first.\<close>

function decimal :: "nat \<Rightarrow> string" where
  "decimal n = (if n < 10 then [digit_char n] else decimal (n div 10) @ [digit_char (n mod 10)])"
  by pat_completeness auto
termination
  by (relation "measure id") auto

text \<open>\<open>n.toString()\<close> and the \<open>${n}\<close> of a template literal, for an integer \<open>n\<close>.\<close>

definition toString :: "int \<Rightarrow> string" where
  "toString n = (if n < 0 then CHR ''-'' # decimal (nat (- n)) else decimal (nat n))"

text \<open>
  \<open>parseInt(s)\<close> with no radix, after ECMAScript: leading white space is skipped, one
  sign is read, a \<open>0x\<close> or \<open>0X\<close> prefix selects radix 16, and the longest run of digits
  of the radix is the value; with no digit at all the result is \<open>NaN\<close>, here \<open>None\<close>.
  What is skipped is the language's \<open>WhiteSpace\<close> and \<open>LineTerminator\<close>; among the
  code units below 256 these are tab, line feed, vertical tab, form feed, carriage
  return, space and the no-break space \<open>U+00A0\<close>.
\<close>

definition isWhiteSpace :: "char \<Rightarrow> bool" where
  "isWhiteSpace c =
     (c \<in> set [CHR 0x09, CHR 0x0A, CHR 0x0B, CHR 0x0C, CHR 0x0D, CHR 0x20, CHR 0xA0])"

text \<open>The position of a character in an alphabet.\<close>

fun index_of :: "char \<Rightarrow> string \<Rightarrow> nat option" where
  "index_of c [] = None"
| "index_of c (x # xs) = (if c = x then Some 0 else map_option Suc (index_of c xs))"

text \<open>The value of a character as a digit, in either case of the letters.\<close>

definition digit_value :: "char \<Rightarrow> nat option" where
  "digit_value c =
     (case index_of c ''0123456789abcdef'' of
        Some d \<Rightarrow> Some d
      | None \<Rightarrow> map_option (\<lambda>d. 10 + d) (index_of c ''ABCDEF''))"

definition digit_in :: "nat \<Rightarrow> char \<Rightarrow> nat option" where
  "digit_in radix c =
     (case digit_value c of
        None \<Rightarrow> None
      | Some d \<Rightarrow> if d < radix then Some d else None)"

text \<open>The longest run of digits, accumulated; \<open>None\<close> until a first digit is read.\<close>

fun parse_digits :: "nat \<Rightarrow> string \<Rightarrow> nat option \<Rightarrow> nat option" where
  "parse_digits radix [] acc = acc"
| "parse_digits radix (c # cs) acc =
     (case digit_in radix c of
        None \<Rightarrow> acc
      | Some d \<Rightarrow>
          parse_digits radix cs
            (Some (radix * (case acc of None \<Rightarrow> 0 | Some a \<Rightarrow> a) + d)))"

definition parseInt :: "string \<Rightarrow> int option" where
  "parseInt s =
     (let s1 = dropWhile isWhiteSpace s;
          sign = (if startsWith s1 ''-'' then - 1 else 1);
          s2 = (if startsWith s1 ''-'' \<or> startsWith s1 ''+'' then drop 1 s1 else s1);
          hex = (startsWith s2 ''0x'' \<or> startsWith s2 ''0X'');
          radix = (if hex then 16 else 10);
          s3 = (if hex then drop 2 s2 else s2)
      in map_option (\<lambda>n. sign * int n) (parse_digits radix s3 None))"

section \<open>lib/retry.ts\<close>

text \<open>
  What an operation can throw. \<open>ErrorObj m\<close> is an instance of \<open>Error\<close> with message
  \<open>m\<close>. \<open>NonError s m\<close> is any other thrown value: \<open>s\<close> is \<open>String(value)\<close> and \<open>m\<close>
  its \<open>message\<close> property when that is a string; with \<open>None\<close> the expression
  \<open>error.message.includes(...)\<close> raises a \<open>TypeError\<close>.
\<close>

datatype thrown = ErrorObj string | NonError string "string option"

text \<open>
  What \<open>withRetry\<close> itself throws: an \<open>Error\<close> with a message (\<open>lastError\<close>, or the
  error built after the loop), or the \<open>TypeError\<close> of reading a property of \<open>undefined\<close>.
\<close>

datatype failure = Err string | TypeErr

text \<open>
  The effects of a run, in order: a status update of the pending event (its id and the
  status description), a call of the operation (numbered from 1), a timed wait in
  milliseconds. \<open>events.updatePending\<close> belongs to the platform and is taken to resolve.
\<close>

datatype event = UpdatePending string string | Invoke nat | Wait int

record RetryOptions =
  maxRetries :: "int option"
  maxDelay :: "int option"
  pendingEventId :: "string option"
  operationName :: "string option"

text \<open>\<open>error instanceof Error ? error : new Error(String(error))\<close>, by its message.\<close>

fun asError :: "thrown \<Rightarrow> string" where
  "asError (ErrorObj m) = m"
| "asError (NonError s m) = s"

text \<open>\<open>error.message\<close> where \<open>includes\<close> can be called on it.\<close>

fun message :: "thrown \<Rightarrow> string option" where
  "message (ErrorObj m) = Some m"
| "message (NonError s m) = m"

text \<open>The four patterns of \<open>shouldRetry\<close>, in the order of the source.\<close>

definition matchesRetryPattern :: "string \<Rightarrow> bool" where
  "matchesRetryPattern m =
     (js_includes m ''HTTP 504'' \<or> js_includes m ''timeout''
      \<or> js_includes m ''ECONNRESET'' \<or> js_includes m ''ENOTFOUND'')"

text \<open>
  The status update at the start of an attempt:
  \<open>if (pendingEventId && attempt > 1) await events.updatePending(...)\<close>.
\<close>

definition statusUpdate :: "string option \<Rightarrow> string \<Rightarrow> nat \<Rightarrow> event list" where
  "statusUpdate pid opName attempt =
     (case pid of
        None \<Rightarrow> []
      | Some p \<Rightarrow>
          if p \<noteq> [] \<and> attempt > 1
          then [UpdatePending p (opName @ '' (attempt '' @ toString (int attempt) @ '')...'')]
          else [])"

text \<open>
  The \<open>for\<close> loop of \<open>withRetry\<close> from a given \<open>attempt\<close>, followed by the \<open>throw\<close>
  after it. The operation is an oracle: \<open>operation k\<close> is what its \<open>k\<close>-th call does,
  \<open>Inr\<close> a value or \<open>Inl\<close> what it throws. \<open>lastError\<close> holds the message of the
  variable of that name, \<open>None\<close> while it is unassigned.
\<close>

function retry_loop ::
  "(nat \<Rightarrow> thrown + 'a) \<Rightarrow> int \<Rightarrow> int \<Rightarrow> string option \<Rightarrow> string \<Rightarrow> nat \<Rightarrow> string option
     \<Rightarrow> (failure + 'a) \<times> event list" where
  "retry_loop operation maxR maxD pid opName attempt lastError =
     (if int attempt \<le> maxR then
        (case operation attempt of
           Inr v \<Rightarrow> (Inr v, statusUpdate pid opName attempt @ [Invoke attempt])
         | Inl error \<Rightarrow>
             if int attempt < maxR then
               (case message error of
                  None \<Rightarrow> (Inl TypeErr, statusUpdate pid opName attempt @ [Invoke attempt])
                | Some m \<Rightarrow>
                    if matchesRetryPattern m then
                      (let delay = min (1000 * 2 ^ (attempt - 1)) maxD
                       in case retry_loop operation maxR maxD pid opName (Suc attempt)
                                 (Some (asError error)) of
                            (r, tr) \<Rightarrow>
                              (r, statusUpdate pid opName attempt
                                    @ [Invoke attempt, Wait delay] @ tr))
                    else
                      (Inl (Err (asError error)),
                       statusUpdate pid opName attempt @ [Invoke attempt]))
             else
               (Inl (Err (asError error)),
                statusUpdate pid opName attempt @ [Invoke attempt]))
      else
        (case lastError of
           None \<Rightarrow> (Inl TypeErr, [])
         | Some m \<Rightarrow>
             (Inl (Err (opName @ '' failed after '' @ toString maxR @ '' attempts: '' @ m)),
              [])))"
  by pat_completeness auto
termination
  by (relation "measure (\<lambda>(operation, maxR, maxD, pid, opName, attempt, lastError).
        nat (maxR + 1 - int attempt))") auto

declare retry_loop.simps [simp del]
declare decimal.simps [simp del]

text \<open>The defaults of the destructured \<open>options\<close>.\<close>

definition maxRetriesOf :: "RetryOptions \<Rightarrow> int" where
  "maxRetriesOf options = (case maxRetries options of None \<Rightarrow> 3 | Some n \<Rightarrow> n)"

definition maxDelayOf :: "RetryOptions \<Rightarrow> int" where
  "maxDelayOf options = (case maxDelay options of None \<Rightarrow> 5000 | Some d \<Rightarrow> d)"

definition operationNameOf :: "RetryOptions \<Rightarrow> string" where
  "operationNameOf options =
     (case operationName options of None \<Rightarrow> ''operation'' | Some s \<Rightarrow> s)"

definition withRetry :: "(nat \<Rightarrow> thrown + 'a) \<Rightarrow> RetryOptions \<Rightarrow> (failure + 'a) \<times> event list" where
  "withRetry operation options =
     retry_loop operation (maxRetriesOf options) (maxDelayOf options)
       (pendingEventId options) (operationNameOf options) 1 None"

text \<open>\<open>withRetry(operation)\<close> with the \<open>options\<close> argument left out.\<close>

definition noOptions :: RetryOptions where
  "noOptions = \<lparr>maxRetries = None, maxDelay = None, pendingEventId = None, operationName = None\<rparr>"

text \<open>What a run did: the calls of the operation and the waits, in order.\<close>

fun invocations :: "event list \<Rightarrow> nat list" where
  "invocations [] = []"
| "invocations (Invoke k # tr) = k # invocations tr"
| "invocations (e # tr) = invocations tr"

fun waits :: "event list \<Rightarrow> int list" where
  "waits [] = []"
| "waits (Wait d # tr) = d # waits tr"
| "waits (e # tr) = waits tr"

text \<open>An attempt that fails with an error that matches one of the patterns.\<close>

definition failsRetryably :: "thrown + 'a \<Rightarrow> bool" where
  "failsRetryably outcome =
     (case outcome of
        Inr v \<Rightarrow> False
      | Inl error \<Rightarrow>
          (case message error of None \<Rightarrow> False | Some m \<Rightarrow> matchesRetryPattern m))"

section \<open>JSON values\<close>

text \<open>
  A parsed JSON value; an object is the list of its properties, each key once. Numbers
  are the integer ones.
\<close>

datatype json =
  JNull | JBool bool | JNumber int | JString string | JArray "json list"
  | JObject "(string \<times> json) list"

text \<open>
  \<open>value[key]\<close> for a value that is not \<open>null\<close>, at one of the keys read here
  (\<open>eventId\<close>, \<open>parameters\<close>, \<open>result\<close>): a property of an object, \<open>undefined\<close> on
  anything else.
\<close>

fun property :: "json \<Rightarrow> string \<Rightarrow> json option" where
  "property (JObject kvs) key = map_of kvs key"
| "property v key = None"

section \<open>lib/security.ts\<close>

text \<open>
  \<open>createHmac("sha256", key).update(data).digest("hex")\<close> is Node's; it is the
  parameter \<open>hmac\<close>, applied to the key and then to the data.
\<close>

type_synonym hmac = "string \<Rightarrow> string \<Rightarrow> string"

definition generateFlowSecret :: "hmac \<Rightarrow> string \<Rightarrow> string \<Rightarrow> string" where
  "generateFlowSecret hmac blockId appSecretKey = hmac appSecretKey blockId"

definition signRequest :: "hmac \<Rightarrow> string \<Rightarrow> int \<Rightarrow> string \<Rightarrow> string" where
  "signRequest hmac body timestamp flowSecret =
     (let data = body @ toString timestamp in hmac flowSecret data)"

section \<open>lib/headers.ts\<close>

text \<open>
  Modelled from the spec: the constants \<open>SECURITY_HEADERS\<close> of \<open>lib/headers.ts\<close>, which
  the source imports; the header names are those the specification fixes.
\<close>

definition EVENT_ID :: string where
  "EVENT_ID = ''X-Event-Id''"

definition TIMESTAMP :: string where
  "TIMESTAMP = ''X-Timestamp''"

definition SIGNATURE :: string where
  "SIGNATURE = ''X-Signature''"

section \<open>blocks/tool.ts\<close>

record Request =
  body :: "json option"
  requestId :: string
  headers :: "string \<rightharpoonup> string"
  rawBody :: string

text \<open>
  What \<open>onRequest\<close> does before it returns: one \<open>http.respond\<close> with a status code
  and the \<open>error\<close> text of its body, or one \<open>events.emit\<close> of the request id and the
  parameters, with the body's event id as secondary parent. Both calls belong to the
  platform and are taken to resolve.
\<close>

datatype gate_outcome =
  Respond string int string
| Emit string "json option" "json option"

text \<open>The string in a header value that is known to be there.\<close>

fun text_of :: "string option \<Rightarrow> string" where
  "text_of None = []"
| "text_of (Some s) = s"

text \<open>
  \<open>Math.abs(now - requestTime) > 300\<close>, where \<open>requestTime\<close> may be \<open>NaN\<close>: every
  comparison with \<open>NaN\<close> is false.
\<close>

definition tooOld :: "int \<Rightarrow> int option \<Rightarrow> bool" where
  "tooOld now requestTime =
     (case requestTime of None \<Rightarrow> False | Some t \<Rightarrow> \<bar>now - t\<bar> > 300)"

text \<open>
  \<open>tool.http.onRequest\<close>. \<open>now\<close> is \<open>Math.floor(Date.now() / 1000)\<close>, \<open>secretKey\<close> is
  \<open>app.signals.toolSecuritySecret\<close> and \<open>blockId\<close> is \<open>block.id\<close>. Destructuring a body
  that is \<open>undefined\<close> or \<open>null\<close> raises a \<open>TypeError\<close>.
\<close>

definition onRequest ::
  "hmac \<Rightarrow> int \<Rightarrow> string option \<Rightarrow> string \<Rightarrow> Request \<Rightarrow> failure + gate_outcome" where
  "onRequest hmac now secretKey blockId request =
     (if falsy secretKey then
        Inr (Respond (requestId request) 500 ''App security secret not available'')
      else
        (let eventId = headers request EVENT_ID;
             timestamp = headers request TIMESTAMP;
             signature = headers request SIGNATURE
         in if falsy eventId \<or> falsy timestamp \<or> falsy signature then
              Inr (Respond (requestId request) 401 ''Missing required security headers'')
            else
              (let requestTime = parseInt (text_of timestamp)
               in if tooOld now requestTime then
                    Inr (Respond (requestId request) 401 ''Request timestamp too old'')
                  else
                    (let flowSecret = generateFlowSecret hmac blockId (text_of secretKey);
                         expectedSignature =
                           hmac flowSecret (rawBody request @ text_of timestamp)
                     in if text_of signature \<noteq> expectedSignature then
                          Inr (Respond (requestId request) 401 ''Invalid request signature'')
                        else
                          (case body request of
                             None \<Rightarrow> Inl TypeErr
                           | Some JNull \<Rightarrow> Inl TypeErr
                           | Some b \<Rightarrow>
                               Inr (Emit (requestId request) (property b ''parameters'')
                                      (property b ''eventId'')))))))"

section \<open>blocks/generate.ts\<close>

text \<open>A call of \<open>fetch\<close>: the URL and the method, the headers and the body given.\<close>

record FetchCall =
  url :: string
  fetchMethod :: "string option"
  fetchHeaders :: "string \<rightharpoonup> string"
  fetchBody :: "string option"

text \<open>
  The response of a \<open>fetch\<close>, as far as it is read: \<open>status\<close>, \<open>statusText\<close> and what
  \<open>response.json()\<close> does, \<open>Inr\<close> the parsed body or \<open>Inl\<close> what it throws.
\<close>

record Response =
  status :: int
  statusText :: string
  json_of :: "thrown + json"

definition ok :: "Response \<Rightarrow> bool" where
  "ok response = (200 \<le> status response \<and> status response \<le> 299)"

text \<open>The fields of a tool descriptor that \<open>createToolsFromConfig\<close> reads for a call.\<close>

record Tool =
  toolName :: string
  toolUrl :: string
  toolBlockId :: string

text \<open>The \<open>fetch\<close> call of the operation, given the serialised body and the time.\<close>

definition toolFetchCall :: "hmac \<Rightarrow> Tool \<Rightarrow> string \<Rightarrow> string \<Rightarrow> string \<Rightarrow> int \<Rightarrow> FetchCall" where
  "toolFetchCall hmac t secretKey eventId body' timestamp =
     (let flowSecret = generateFlowSecret hmac (toolBlockId t) secretKey;
          signature = signRequest hmac body' timestamp flowSecret
      in \<lparr>url = toolUrl t,
          fetchMethod = Some ''POST'',
          fetchHeaders =
            [''Content-Type'' \<mapsto> ''application/json'',
             EVENT_ID \<mapsto> eventId,
             TIMESTAMP \<mapsto> toString timestamp,
             SIGNATURE \<mapsto> signature],
          fetchBody = Some body'\<rparr>)"

text \<open>The message of the \<open>TypeError\<close> of destructuring \<open>null\<close>, as V8 words it.\<close>

definition destructureNull :: string where
  "destructureNull =
     ''Cannot destructure property 'result' of '(intermediate value)' as it is null.''"

text \<open>
  The operation that \<open>execute\<close> hands to \<open>withRetry\<close>, called once. \<open>stringify\<close> is
  \<open>JSON.stringify\<close> on a value, \<open>fetch\<close> is what this call of \<open>fetch\<close> does and
  \<open>timestamp\<close> is \<open>Math.floor(Date.now() / 1000)\<close> at this call. The value returned
  is a string, or \<open>undefined\<close> where the response has no \<open>result\<close>.
\<close>

definition toolCall ::
  "hmac \<Rightarrow> (json \<Rightarrow> string) \<Rightarrow> (FetchCall \<Rightarrow> thrown + Response) \<Rightarrow> int
     \<Rightarrow> Tool \<Rightarrow> string \<Rightarrow> string \<Rightarrow> json \<Rightarrow> thrown + string option" where
  "toolCall hmac stringify fetch timestamp t secretKey eventId parameters =
     (let body' = stringify (JObject [(''parameters'', parameters), (''eventId'', JString eventId)])
      in case fetch (toolFetchCall hmac t secretKey eventId body' timestamp) of
           Inl e \<Rightarrow> Inl e
         | Inr response \<Rightarrow>
             if \<not> ok response then
               Inl (ErrorObj (''HTTP '' @ toString (status response) @ '': ''
                                @ statusText response))
             else
               (case json_of response of
                  Inl e \<Rightarrow> Inl e
                | Inr JNull \<Rightarrow> Inl (ErrorObj destructureNull)
                | Inr v \<Rightarrow> Inr (map_option stringify (property v ''result''))))"

text \<open>
  \<open>execute\<close> of a configured tool: the operation under \<open>withRetry\<close>, its \<open>k\<close>-th call
  reading the clock \<open>clock k\<close> and getting \<open>fetch k\<close> from the network.
\<close>

definition execute ::
  "hmac \<Rightarrow> (json \<Rightarrow> string) \<Rightarrow> (nat \<Rightarrow> FetchCall \<Rightarrow> thrown + Response) \<Rightarrow> (nat \<Rightarrow> int)
     \<Rightarrow> Tool \<Rightarrow> string \<Rightarrow> string \<Rightarrow> string \<Rightarrow> json
     \<Rightarrow> (failure + string option) \<times> event list" where
  "execute hmac stringify fetch clock t eventId pendingEventId' secretKey parameters =
     withRetry
       (\<lambda>k. toolCall hmac stringify (fetch k) (clock k) t secretKey eventId parameters)
       \<lparr>maxRetries = None, maxDelay = None, pendingEventId = Some pendingEventId',
        operationName = Some (''Calling tool '' @ [CHR 0x22] @ toolName t @ [CHR 0x22])\<rparr>"

text \<open>
  The request that the tool block receives for a \<open>fetch\<close> call: the header fields and
  the raw body as sent, with the request id the platform gives it and the body as the
  platform parsed it.
\<close>

definition received :: "FetchCall \<Rightarrow> string \<Rightarrow> json option \<Rightarrow> Request" where
  "received call rid parsed =
     \<lparr>body = parsed, requestId = rid, headers = fetchHeaders call,
      rawBody = text_of (fetchBody call)\<rparr>"

section \<open>main.ts\<close>

record SyncResult =
  newStatus :: string
  customStatusDescription :: "string option"
  signalUpdates :: "string \<rightharpoonup> string"

text \<open>
  \<open>app.onSync\<close>. \<open>toolSecuritySecret\<close> is the signal as the platform holds it, \<open>random\<close>
  is \<open>randomBytes(32).toString("hex")\<close> and \<open>fetch\<close> is what the call to OpenRouter
  does; an exception of \<open>fetch\<close> leaves \<open>onSync\<close> and nothing is returned.
\<close>

definition onSync ::
  "string option \<Rightarrow> string \<Rightarrow> string \<Rightarrow> (FetchCall \<Rightarrow> thrown + Response) \<Rightarrow> thrown + SyncResult" where
  "onSync toolSecuritySecret apiKey random fetch =
     (let updates =
            (if falsy toolSecuritySecret then [''toolSecuritySecret'' \<mapsto> random]
             else Map.empty)
      in case fetch \<lparr>url = ''https://openrouter.ai/api/v1/models'', fetchMethod = None,
                     fetchHeaders =
                       [''Authorization'' \<mapsto> ''Bearer '' @ apiKey,
                        ''Content-Type'' \<mapsto> ''application/json''],
                     fetchBody = None\<rparr> of
           Inl e \<Rightarrow> Inl e
         | Inr response \<Rightarrow>
             if \<not> ok response then
               Inr \<lparr>newStatus = ''failed'',
                    customStatusDescription = Some ''See logs for details'',
                    signalUpdates = updates\<rparr>
             else
               Inr \<lparr>newStatus = ''ready'', customStatusDescription = None,
                    signalUpdates = updates\<rparr>)"

section \<open>Scenarios\<close>

text \<open>
  Concrete data for the scenarios below: a stand-in for the keyed hash that writes its
  key and data out, and requests as a tool block may receive them.
\<close>

definition exampleHmac :: hmac where
  "exampleHmac key data = ''mac('' @ key @ '';'' @ data @ '')''"

definition requestWithoutHeaders :: Request where
  "requestWithoutHeaders =
     \<lparr>body = Some (JObject []), requestId = ''r1'', headers = Map.empty, rawBody = ''{}''\<rparr>"

definition requestAt :: "string \<Rightarrow> string \<Rightarrow> Request" where
  "requestAt timestamp signature =
     \<lparr>body = Some (JObject [(''parameters'', JObject []), (''eventId'', JString ''e1'')]),
      requestId = ''r1'',
      headers = [EVENT_ID \<mapsto> ''e1'', TIMESTAMP \<mapsto> timestamp, SIGNATURE \<mapsto> signature],
      rawBody = ''{}''\<rparr>"

text \<open>A network that answers every call with the given status, status text and body.\<close>

definition respondsWith :: "int \<Rightarrow> string \<Rightarrow> thrown + json \<Rightarrow> FetchCall \<Rightarrow> thrown + Response" where
  "respondsWith st txt js call = Inr \<lparr>status = st, statusText = txt, json_of = js\<rparr>"

text \<open>A network that gives the same answer at every call, and a clock that stands still.\<close>

definition alwaysResponds ::
  "int \<Rightarrow> string \<Rightarrow> thrown + json \<Rightarrow> nat \<Rightarrow> FetchCall \<Rightarrow> thrown + Response" where
  "alwaysResponds st txt js k = respondsWith st txt js"

definition steadyClock :: "nat \<Rightarrow> int" where
  "steadyClock k = 1000"

text \<open>A stand-in for \<open>JSON.stringify\<close>: a string as it is, \<open>{}\<close> for the rest.\<close>

definition exampleStringify :: "json \<Rightarrow> string" where
  "exampleStringify v = (case v of JString s \<Rightarrow> s | _ \<Rightarrow> ''{}'')"

text \<open>A configured tool, on the block \<open>tool-A\<close>.\<close>

definition toolA :: Tool where
  "toolA = \<lparr>toolName = ''Lookup'', toolUrl = ''https://tools.example/a'',
            toolBlockId = ''tool-A''\<rparr>"

text \<open>Operations to run: one that always times out, one that does so twice.\<close>

definition alwaysTimeout :: "nat \<Rightarrow> thrown + string" where
  "alwaysTimeout k = Inl (ErrorObj ''timeout'')"

definition timeoutTwice :: "nat \<Rightarrow> thrown + string" where
  "timeoutTwice k = (if k < 3 then Inl (ErrorObj ''timeout'') else Inr ''done'')"

text \<open>One that succeeds at once, and one that is refused each time.\<close>

definition alwaysDone :: "nat \<Rightarrow> thrown + string" where
  "alwaysDone k = Inr ''done''"

definition alwaysForbidden :: "nat \<Rightarrow> thrown + string" where
  "alwaysForbidden k = Inl (ErrorObj ''HTTP 403: Forbidden'')"

text \<open>Options that name a pending event, and nothing else.\<close>

definition withPending :: RetryOptions where
  "withPending = noOptions\<lparr>pendingEventId := Some ''p1''\<rparr>"

section \<open>Properties of the retry executor\<close>

text \<open>
  C1. An operation that fails with a retryable error on every attempt should end, after
  exactly \<open>maxRetries\<close> attempts, in the terminal error
  \<open><operationName> failed after <maxRetries> attempts: <message>\<close>. The source does make
  exactly three attempts under the defaults, with waits of 1000 and 2000 milliseconds,
  but at the last attempt \<open>attempt < maxRetries\<close> is false, so \<open>shouldRetry\<close> is false
  and \<open>lastError\<close> is thrown as it is: the \<open>throw\<close> after the loop is never reached
  with an error in hand.
\<close>

theorem withRetry_exhausted_throws_lastError:
  "withRetry alwaysTimeout noOptions =
     (Inl (Err ''timeout''), [Invoke 1, Wait 1000, Invoke 2, Wait 2000, Invoke 3])"
  by code_simp

section \<open>The retry loop, attempt by attempt\<close>

lemma retry_loop_returns:
  "int k \<le> maxR \<Longrightarrow> operation k = Inr v \<Longrightarrow>
     retry_loop operation maxR maxD pid opName k le
       = (Inr v, statusUpdate pid opName k @ [Invoke k])"
  by (subst retry_loop.simps) simp

lemma retry_loop_lastError:
  "int k \<le> maxR \<Longrightarrow>
     retry_loop operation maxR maxD pid opName k le
       = retry_loop operation maxR maxD pid opName k le'"
  by (subst retry_loop.simps, subst (2) retry_loop.simps) simp

lemma retry_loop_retries:
  assumes "int k < maxR" and "failsRetryably (operation k)"
  shows "retry_loop operation maxR maxD pid opName k le =
     (fst (retry_loop operation maxR maxD pid opName (Suc k) le'),
      statusUpdate pid opName k @ [Invoke k, Wait (min (1000 * 2 ^ (k - 1)) maxD)]
        @ snd (retry_loop operation maxR maxD pid opName (Suc k) le'))"
proof -
  from assms(2) obtain error m where
    e: "operation k = Inl error" "message error = Some m" "matchesRetryPattern m"
    by (auto simp: failsRetryably_def split: sum.splits option.splits)
  have "int (Suc k) \<le> maxR"
    using assms(1) by simp
  note same = retry_loop_lastError [OF this, of operation maxD pid opName "Some (asError error)" le']
  show ?thesis
    using assms(1) e by (subst retry_loop.simps) (simp add: same split: prod.splits)
qed

lemma retry_loop_throws:
  assumes "int k \<le> maxR" and "operation k = Inl error"
    and "\<not> (int k < maxR \<and> failsRetryably (operation k))"
  shows "retry_loop operation maxR maxD pid opName k le =
     (Inl (if int k < maxR \<and> message error = None then TypeErr else Err (asError error)),
      statusUpdate pid opName k @ [Invoke k])"
  using assms
  by (subst retry_loop.simps) (auto simp: failsRetryably_def split: option.splits)

text \<open>
  When the attempts from \<open>a\<close> up to, and not including, \<open>k\<close> fail retryably, the run
  from \<open>a\<close> is those attempts, each with its wait, and then the run from \<open>k\<close>.
\<close>

lemma retry_loop_reaches:
  assumes "\<forall>j. a \<le> j \<and> j < k \<longrightarrow> failsRetryably (operation j)"
    and "a \<le> k" and "int k \<le> maxR"
  shows "retry_loop operation maxR maxD pid opName a le =
     (fst (retry_loop operation maxR maxD pid opName k le'),
      concat (map (\<lambda>j. statusUpdate pid opName j
                          @ [Invoke j, Wait (min (1000 * 2 ^ (j - 1)) maxD)]) [a..<k])
        @ snd (retry_loop operation maxR maxD pid opName k le'))"
  using assms
proof (induction k arbitrary: le')
  case 0
  then show ?case
    using retry_loop_lastError [of 0 maxR operation maxD pid opName le le'] by simp
next
  case (Suc k)
  show ?case
  proof (cases "a = Suc k")
    case True
    then show ?thesis
      using retry_loop_lastError [of "Suc k" maxR operation maxD pid opName le le'] Suc.prems(3)
      by simp
  next
    case False
    with Suc.prems have ak: "a \<le> k" and k: "int k < maxR" and fk: "failsRetryably (operation k)"
      by auto
    have "retry_loop operation maxR maxD pid opName a le =
       (fst (retry_loop operation maxR maxD pid opName k None),
        concat (map (\<lambda>j. statusUpdate pid opName j
                            @ [Invoke j, Wait (min (1000 * 2 ^ (j - 1)) maxD)]) [a..<k])
          @ snd (retry_loop operation maxR maxD pid opName k None))"
      using Suc.prems(1) ak k by (intro Suc.IH) auto
    then show ?thesis
      using ak
      by (simp add: retry_loop_retries [where operation = operation and k = k
            and le = None and le' = le', OF k fk])
  qed
qed

lemma invocations_append: "invocations (xs @ ys) = invocations xs @ invocations ys"
  by (induction xs rule: invocations.induct) simp_all

lemma waits_append: "waits (xs @ ys) = waits xs @ waits ys"
  by (induction xs rule: waits.induct) simp_all

lemma invocations_statusUpdate: "invocations (statusUpdate pid opName k) = []"
  by (simp add: statusUpdate_def split: option.splits)

lemma waits_statusUpdate: "waits (statusUpdate pid opName k) = []"
  by (simp add: statusUpdate_def split: option.splits)

lemma invocations_retried:
  "invocations (concat (map (\<lambda>j. statusUpdate pid opName j @ [Invoke j, Wait (d j)]) [a..<k]))
     = [a..<k]"
  by (induction k) (simp_all add: invocations_append invocations_statusUpdate)

lemma invocations_retry_loop_first:
  "int k \<le> maxR \<Longrightarrow>
     \<exists>ks. invocations (snd (retry_loop operation maxR maxD pid opName k le)) = k # ks"
  by (subst retry_loop.simps)
     (simp add: invocations_append invocations_statusUpdate Let_def
        split: sum.splits option.splits prod.splits)

lemma statusUpdate_first: "statusUpdate pid opName (Suc 0) = []"
  by (simp add: statusUpdate_def split: option.splits)

text \<open>A run in which the attempts before \<open>k\<close> fail retryably goes on from attempt \<open>k\<close>.\<close>

lemma withRetry_reaches:
  assumes "\<forall>j. 1 \<le> j \<and> j < k \<longrightarrow> failsRetryably (operation j)"
    and "1 \<le> k" and "int k \<le> maxRetriesOf options"
  shows "withRetry operation options =
     (fst (retry_loop operation (maxRetriesOf options) (maxDelayOf options)
             (pendingEventId options) (operationNameOf options) k le),
      concat (map (\<lambda>j. statusUpdate (pendingEventId options) (operationNameOf options) j
                          @ [Invoke j, Wait (min (1000 * 2 ^ (j - 1)) (maxDelayOf options))])
                [1..<k])
        @ snd (retry_loop operation (maxRetriesOf options) (maxDelayOf options)
                 (pendingEventId options) (operationNameOf options) k le))"
  unfolding withRetry_def using assms by (intro retry_loop_reaches) auto

text \<open>
  C4. With at least one attempt allowed, an operation whose first call succeeds gives
  its value after that one call: no wait, no status update. In a run that reaches
  attempt \<open>k\<close>: if that attempt returns, its value is the result and there have been
  exactly \<open>k\<close> calls; if it fails, there is an attempt \<open>k + 1\<close> if and only if
  \<open>k < maxRetries\<close> and the message of the error holds one of the four patterns;
  otherwise the error is thrown on, the failed call being the last thing done.
\<close>

theorem withRetry_retries_iff:
  fixes operation :: "nat \<Rightarrow> thrown + 'a"
  assumes reached: "\<forall>j. 1 \<le> j \<and> j < k \<longrightarrow> failsRetryably (operation j)"
    and k: "1 \<le> k" "int k \<le> maxRetriesOf options"
  shows "(\<forall>v. operation 1 = Inr v \<longrightarrow> withRetry operation options = (Inr v, [Invoke 1]))
    \<and> (\<forall>v. operation k = Inr v \<longrightarrow>
          fst (withRetry operation options) = Inr v
          \<and> invocations (snd (withRetry operation options)) = [1..<Suc k])
    \<and> (\<forall>error. operation k = Inl error \<longrightarrow>
          (Suc k \<in> set (invocations (snd (withRetry operation options)))
             \<longleftrightarrow> int k < maxRetriesOf options
                 \<and> (\<exists>m. message error = Some m \<and> matchesRetryPattern m)))
    \<and> (\<forall>m. operation k = Inl (ErrorObj m)
             \<and> \<not> (int k < maxRetriesOf options \<and> matchesRetryPattern m) \<longrightarrow>
          fst (withRetry operation options) = Inl (Err m)
          \<and> invocations (snd (withRetry operation options)) = [1..<Suc k]
          \<and> last (snd (withRetry operation options)) = Invoke k)"
proof -
  let ?maxR = "maxRetriesOf options"
  let ?loop = "retry_loop operation ?maxR (maxDelayOf options) (pendingEventId options)
                 (operationNameOf options)"
  let ?run = "withRetry operation options"
  let ?pre = "concat (map (\<lambda>j. statusUpdate (pendingEventId options) (operationNameOf options) j
                  @ [Invoke j, Wait (min (1000 * 2 ^ (j - 1)) (maxDelayOf options))]) [1..<k])"
  have run: "?run = (fst (?loop k None), ?pre @ snd (?loop k None))"
    by (rule withRetry_reaches [OF reached k])
  have inv: "invocations (snd ?run) = [1..<k] @ invocations (snd (?loop k None))"
    by (simp add: run invocations_append invocations_retried)
  have first: "?run = (Inr v, [Invoke 1])" if "operation 1 = Inr v" for v
  proof -
    have "int 1 \<le> ?maxR"
      using k by simp
    from retry_loop_returns [where operation = operation and k = 1, OF this that]
    show ?thesis
      by (simp add: withRetry_def statusUpdate_first)
  qed
  have returns: "fst ?run = Inr v \<and> invocations (snd ?run) = [1..<Suc k]"
    if "operation k = Inr v" for v
    using k
    by (simp add: inv run retry_loop_returns [where operation = operation and k = k, OF k(2) that] invocations_append
        invocations_statusUpdate invocations_retried)
  have throws: "fst ?run = Inl (if int k < ?maxR \<and> message error = None then TypeErr
                                  else Err (asError error))
      \<and> invocations (snd ?run) = [1..<Suc k] \<and> last (snd ?run) = Invoke k"
    if "operation k = Inl error" and "\<not> (int k < ?maxR \<and> failsRetryably (operation k))"
    for error
    using k
    by (simp add: inv run retry_loop_throws [where operation = operation and k = k, OF k(2) that] invocations_append
        invocations_statusUpdate invocations_retried)
  have retries: "Suc k \<in> set (invocations (snd ?run))"
    if "int k < ?maxR" and "failsRetryably (operation k)"
  proof -
    from that(1) have "int (Suc k) \<le> ?maxR"
      by simp
    from invocations_retry_loop_first [OF this]
    obtain ks where "invocations (snd (?loop (Suc k) None)) = Suc k # ks"
      by blast
    then show ?thesis
      by (simp add: inv invocations_append invocations_statusUpdate
          retry_loop_retries [where operation = operation and k = k and le' = None, OF that])
  qed
  have iff: "Suc k \<in> set (invocations (snd ?run))
      \<longleftrightarrow> int k < ?maxR \<and> (\<exists>m. message error = Some m \<and> matchesRetryPattern m)"
    if e: "operation k = Inl error" for error
  proof (cases "int k < ?maxR \<and> failsRetryably (operation k)")
    case True
    then show ?thesis
      using retries e by (auto simp: failsRetryably_def split: option.splits)
  next
    case False
    from throws [OF e False] have "Suc k \<notin> set (invocations (snd ?run))"
      by simp
    with False e show ?thesis
      by (auto simp: failsRetryably_def split: option.splits)
  qed
  have fatal: "fst ?run = Inl (Err m) \<and> invocations (snd ?run) = [1..<Suc k]
      \<and> last (snd ?run) = Invoke k"
    if "operation k = Inl (ErrorObj m)" and "\<not> (int k < ?maxR \<and> matchesRetryPattern m)" for m
    using throws [OF that(1)] that by (simp add: failsRetryably_def)
  from first returns iff fatal show ?thesis
    by blast
qed

lemma maxRetriesOf_noOptions: "maxRetriesOf noOptions = 3"
  by (simp add: maxRetriesOf_def noOptions_def)

theorem withRetry_retries_iff_witness:
  "withRetry alwaysDone noOptions = (Inr ''done'', [Invoke 1])
   \<and> fst (withRetry timeoutTwice noOptions) = Inr ''done''
   \<and> invocations (snd (withRetry timeoutTwice noOptions)) = [1, 2, 3]
   \<and> 2 \<in> set (invocations (snd (withRetry alwaysTimeout noOptions)))
   \<and> fst (withRetry alwaysForbidden noOptions) = Inl (Err ''HTTP 403: Forbidden'')
   \<and> invocations (snd (withRetry alwaysForbidden noOptions)) = [1]"
proof -
  have twice: "\<forall>j. 1 \<le> j \<and> j < 3 \<longrightarrow> failsRetryably (timeoutTwice j)"
    by (simp add: timeoutTwice_def failsRetryably_def matchesRetryPattern_def)
  have none: "\<forall>j. 1 \<le> j \<and> j < 1 \<longrightarrow> failsRetryably (operation j)"
    for operation :: "nat \<Rightarrow> thrown + string"
    by simp
  have one: "(1::nat) \<le> 1" "int 1 \<le> maxRetriesOf noOptions"
    and three: "(1::nat) \<le> 3" "int 3 \<le> maxRetriesOf noOptions"
    by (simp_all add: maxRetriesOf_noOptions)
  have "withRetry alwaysDone noOptions = (Inr ''done'', [Invoke 1])"
    using withRetry_retries_iff [where operation = alwaysDone and k = 1, OF none one]
    by (simp add: alwaysDone_def)
  moreover have "fst (withRetry timeoutTwice noOptions) = Inr ''done''
      \<and> invocations (snd (withRetry timeoutTwice noOptions)) = [1, 2, 3]"
    using withRetry_retries_iff [where operation = timeoutTwice and k = 3, OF twice three]
    by (simp add: timeoutTwice_def upt_rec)
  moreover have "2 \<in> set (invocations (snd (withRetry alwaysTimeout noOptions)))"
    using withRetry_retries_iff [where operation = alwaysTimeout and k = 1, OF none one]
    by (simp add: alwaysTimeout_def maxRetriesOf_noOptions matchesRetryPattern_def
        numeral_2_eq_2)
  moreover have "fst (withRetry alwaysForbidden noOptions) = Inl (Err ''HTTP 403: Forbidden'')
      \<and> invocations (snd (withRetry alwaysForbidden noOptions)) = [1]"
    using withRetry_retries_iff [where operation = alwaysForbidden and k = 1, OF none one]
    by (simp add: alwaysForbidden_def matchesRetryPattern_def)
  ultimately show ?thesis
    by simp
qed

lemma retry_loop_first_events:
  "int k \<le> maxR \<Longrightarrow>
     \<exists>rest. snd (retry_loop operation maxR maxD pid opName k le)
              = statusUpdate pid opName k @ [Invoke k] @ rest"
  by (subst retry_loop.simps)
     (simp add: Let_def split: sum.splits option.splits prod.splits)

text \<open>
  C5, as stated: the status update comes before the wait. In a run with a pending
  event whose first two attempts time out, each wait ends before the status update of
  the next attempt is sent.
\<close>

theorem status_update_follows_wait:
  "withRetry timeoutTwice withPending =
     (Inr ''done'',
      [Invoke 1, Wait 1000, UpdatePending ''p1'' ''operation (attempt 2)...'',
       Invoke 2, Wait 2000, UpdatePending ''p1'' ''operation (attempt 3)...'',
       Invoke 3])"
  by code_simp

text \<open>
  C5, amended. When the attempts up to \<open>n\<close>, with \<open>n < maxRetries\<close>, fail retryably,
  the run begins with those attempts, attempt \<open>j\<close> followed by a wait of
  \<open>min (1000 * 2 ^ (j - 1)) maxDelay\<close> milliseconds, and goes on with the status update
  of attempt \<open>n + 1\<close> and then its call: the update is sent after the wait. There is no
  update before attempt 1; before a later attempt there is one, naming that attempt,
  when a pending event id is given, and none otherwise.
\<close>

theorem backoff_then_status_update:
  fixes operation :: "nat \<Rightarrow> thrown + 'a"
  assumes fails: "\<forall>j. 1 \<le> j \<and> j \<le> n \<longrightarrow> failsRetryably (operation j)"
    and n: "1 \<le> n" "int n < maxRetriesOf options"
  shows "(\<exists>rest. snd (withRetry operation options) =
            concat (map (\<lambda>j. statusUpdate (pendingEventId options) (operationNameOf options) j
                                @ [Invoke j,
                                   Wait (min (1000 * 2 ^ (j - 1)) (maxDelayOf options))])
                      [1..<Suc n])
              @ statusUpdate (pendingEventId options) (operationNameOf options) (Suc n)
              @ [Invoke (Suc n)] @ rest)
    \<and> statusUpdate (pendingEventId options) (operationNameOf options) 1 = []
    \<and> (\<forall>p. pendingEventId options = Some p \<and> p \<noteq> [] \<longrightarrow>
          statusUpdate (pendingEventId options) (operationNameOf options) (Suc n)
            = [UpdatePending p
                 (operationNameOf options @ '' (attempt '' @ toString (int (Suc n)) @ '')...'')])
    \<and> (falsy (pendingEventId options) \<longrightarrow>
          statusUpdate (pendingEventId options) (operationNameOf options) (Suc n) = [])"
proof -
  have reach: "\<forall>j. 1 \<le> j \<and> j < Suc n \<longrightarrow> failsRetryably (operation j)"
    using fails by simp
  have next_attempt: "1 \<le> Suc n" "int (Suc n) \<le> maxRetriesOf options"
    using n by simp_all
  obtain rest where
    "snd (retry_loop operation (maxRetriesOf options) (maxDelayOf options)
            (pendingEventId options) (operationNameOf options) (Suc n) None)
       = statusUpdate (pendingEventId options) (operationNameOf options) (Suc n)
           @ [Invoke (Suc n)] @ rest"
    using retry_loop_first_events [OF next_attempt(2)] by blast
  then have "\<exists>rest. snd (withRetry operation options) =
            concat (map (\<lambda>j. statusUpdate (pendingEventId options) (operationNameOf options) j
                                @ [Invoke j,
                                   Wait (min (1000 * 2 ^ (j - 1)) (maxDelayOf options))])
                      [1..<Suc n])
              @ statusUpdate (pendingEventId options) (operationNameOf options) (Suc n)
              @ [Invoke (Suc n)] @ rest"
    by (simp add: withRetry_reaches [OF reach next_attempt, of None])
  moreover have "statusUpdate (pendingEventId options) (operationNameOf options) 1 = []"
    by (simp add: statusUpdate_first)
  moreover have "statusUpdate (pendingEventId options) (operationNameOf options) (Suc n)
      = [UpdatePending p
           (operationNameOf options @ '' (attempt '' @ toString (int (Suc n)) @ '')...'')]"
    if "pendingEventId options = Some p \<and> p \<noteq> []" for p
    using that n(1) by (simp add: statusUpdate_def)
  moreover have "statusUpdate (pendingEventId options) (operationNameOf options) (Suc n) = []"
    if "falsy (pendingEventId options)"
    using that by (cases "pendingEventId options") (simp_all add: statusUpdate_def)
  ultimately show ?thesis
    by blast
qed

theorem backoff_then_status_update_witness:
  "\<exists>rest. snd (withRetry timeoutTwice withPending) =
      [Invoke 1, Wait 1000, UpdatePending ''p1'' ''operation (attempt 2)...'',
       Invoke 2, Wait 2000, UpdatePending ''p1'' ''operation (attempt 3)...'',
       Invoke 3] @ rest"
proof -
  have twice: "\<forall>j. 1 \<le> j \<and> j \<le> 2 \<longrightarrow> failsRetryably (timeoutTwice j)"
    by (simp add: timeoutTwice_def failsRetryably_def matchesRetryPattern_def)
  have two: "(1::nat) \<le> 2" "int 2 < maxRetriesOf withPending"
    by (simp_all add: maxRetriesOf_def withPending_def noOptions_def)
  from backoff_then_status_update [where operation = timeoutTwice and n = 2, OF twice two]
  have "\<exists>rest. snd (withRetry timeoutTwice withPending) =
      [Invoke (Suc 0), Wait 1000, UpdatePending ''p1'' ''operation (attempt 2)...'',
       Invoke (Suc (Suc 0)), Wait 2000, UpdatePending ''p1'' ''operation (attempt 3)...'',
       Invoke 3] @ rest"
    by (simp add: upt_rec statusUpdate_def withPending_def noOptions_def maxDelayOf_def
        operationNameOf_def toString_def decimal.simps digit_char_def)
  then show ?thesis
    by (simp add: numeral_2_eq_2)
qed

section \<open>Properties of the inbound gate\<close>

text \<open>
  With the secret and the three headers in place, what is left of \<open>onRequest\<close> is the
  freshness check, the signature check and the hand-over of the body, in that order.
\<close>

lemma onRequest_with_headers:
  assumes "secretKey = Some S" and "S \<noteq> []"
    and "headers request EVENT_ID = Some e" and "e \<noteq> []"
    and "headers request TIMESTAMP = Some ts" and "ts \<noteq> []"
    and "headers request SIGNATURE = Some sg" and "sg \<noteq> []"
  shows "onRequest hmac now secretKey blockId request =
     (if tooOld now (parseInt ts) then
        Inr (Respond (requestId request) 401 ''Request timestamp too old'')
      else if sg \<noteq> hmac (hmac S blockId) (rawBody request @ ts) then
        Inr (Respond (requestId request) 401 ''Invalid request signature'')
      else
        (case body request of
           None \<Rightarrow> Inl TypeErr
         | Some JNull \<Rightarrow> Inl TypeErr
         | Some b \<Rightarrow>
             Inr (Emit (requestId request) (property b ''parameters'')
                    (property b ''eventId''))))"
  using assms by (simp add: onRequest_def Let_def generateFlowSecret_def)

lemma onRequest_no_secret:
  "falsy secretKey \<Longrightarrow>
     onRequest hmac now secretKey blockId request
       = Inr (Respond (requestId request) 500 ''App security secret not available'')"
  by (simp add: onRequest_def)

lemma onRequest_missing_header:
  "\<not> falsy secretKey \<Longrightarrow>
   falsy (headers request EVENT_ID) \<or> falsy (headers request TIMESTAMP)
     \<or> falsy (headers request SIGNATURE) \<Longrightarrow>
     onRequest hmac now secretKey blockId request
       = Inr (Respond (requestId request) 401 ''Missing required security headers'')"
  by (simp add: onRequest_def Let_def)

lemma not_falsy: "\<not> falsy x \<longleftrightarrow> (\<exists>s. x = Some s \<and> s \<noteq> [])"
  by (cases x) simp_all

text \<open>
  C3. The gate makes four checks in a fixed order and the first that fails decides the
  response: no application secret gives 500 whatever the request holds; with a secret,
  a missing event-id, timestamp or signature header gives 401 whatever the timestamp
  and signature are; with the headers in place, a timestamp more than 300 seconds from
  \<open>now\<close> gives 401 whatever the signature is; then a signature that differs from the
  recomputed one gives 401. A response is sent only when one of the four fails, and the
  payload is emitted only when all four pass, which it is when the body is an object.
\<close>

theorem gate_checks_in_order:
  fixes hmac :: hmac and now :: int and secretKey :: "string option" and blockId :: string
    and request :: Request
  defines "rid \<equiv> requestId request"
    and "out \<equiv> onRequest hmac now secretKey blockId request"
    and "missing \<equiv>
           falsy (headers request EVENT_ID) \<or> falsy (headers request TIMESTAMP)
             \<or> falsy (headers request SIGNATURE)"
    and "stale \<equiv>
           \<exists>t. parseInt (text_of (headers request TIMESTAMP)) = Some t \<and> \<bar>now - t\<bar> > 300"
    and "mismatch \<equiv>
           text_of (headers request SIGNATURE)
             \<noteq> hmac (hmac (text_of secretKey) blockId)
                   (rawBody request @ text_of (headers request TIMESTAMP))"
  shows "(falsy secretKey \<longrightarrow> out = Inr (Respond rid 500 ''App security secret not available''))
    \<and> (\<not> falsy secretKey \<and> missing \<longrightarrow>
          out = Inr (Respond rid 401 ''Missing required security headers''))
    \<and> (\<not> falsy secretKey \<and> \<not> missing \<and> stale \<longrightarrow>
          out = Inr (Respond rid 401 ''Request timestamp too old''))
    \<and> (\<not> falsy secretKey \<and> \<not> missing \<and> \<not> stale \<and> mismatch \<longrightarrow>
          out = Inr (Respond rid 401 ''Invalid request signature''))
    \<and> (\<not> falsy secretKey \<and> \<not> missing \<and> \<not> stale \<and> \<not> mismatch \<longrightarrow>
          (\<forall>kvs. body request = Some (JObject kvs) \<longrightarrow>
             out = Inr (Emit rid (map_of kvs ''parameters'') (map_of kvs ''eventId''))))
    \<and> (\<forall>r st msg. out = Inr (Respond r st msg) \<longrightarrow>
          falsy secretKey \<or> missing \<or> stale \<or> mismatch)
    \<and> (\<forall>r ps ev. out = Inr (Emit r ps ev) \<longrightarrow>
          \<not> falsy secretKey \<and> \<not> missing \<and> \<not> stale \<and> \<not> mismatch)"
proof (cases "falsy secretKey")
  case True
  then show ?thesis
    unfolding out_def rid_def by (simp add: onRequest_no_secret)
next
  case secret: False
  show ?thesis
  proof (cases missing)
    case True
    with secret show ?thesis
      unfolding out_def rid_def missing_def by (simp add: onRequest_missing_header)
  next
    case False
    with secret obtain S e ts sg where
      h: "secretKey = Some S" "S \<noteq> []" "headers request EVENT_ID = Some e" "e \<noteq> []"
        "headers request TIMESTAMP = Some ts" "ts \<noteq> []"
        "headers request SIGNATURE = Some sg" "sg \<noteq> []"
      unfolding missing_def by (auto simp: not_falsy)
    have st: "stale \<longleftrightarrow> tooOld now (parseInt ts)"
      unfolding stale_def using h by (simp add: tooOld_def split: option.splits)
    have mm: "mismatch \<longleftrightarrow> sg \<noteq> hmac (hmac S blockId) (rawBody request @ ts)"
      unfolding mismatch_def using h by simp
    have nm: "\<not> missing"
      by (rule False)
    have o: "out =
       (if stale then Inr (Respond rid 401 ''Request timestamp too old'')
        else if mismatch then Inr (Respond rid 401 ''Invalid request signature'')
        else (case body request of
                None \<Rightarrow> Inl TypeErr
              | Some JNull \<Rightarrow> Inl TypeErr
              | Some b \<Rightarrow> Inr (Emit rid (property b ''parameters'') (property b ''eventId''))))"
      unfolding out_def rid_def st mm by (rule onRequest_with_headers [OF h])
    show ?thesis
      using secret nm by (auto simp: o split: option.splits json.splits)
  qed
qed

lemmas scenario_defs =
  requestWithoutHeaders_def requestAt_def exampleHmac_def EVENT_ID_def TIMESTAMP_def
  SIGNATURE_def

lemmas parseInt_eval =
  parseInt_def isWhiteSpace_def digit_in_def digit_value_def Let_def

theorem gate_checks_in_order_witness:
  "onRequest exampleHmac 1300 None ''tool-A'' requestWithoutHeaders
     = Inr (Respond ''r1'' 500 ''App security secret not available'')
   \<and> onRequest exampleHmac 1300 (Some ''S'') ''tool-A'' requestWithoutHeaders
     = Inr (Respond ''r1'' 401 ''Missing required security headers'')
   \<and> onRequest exampleHmac 2000 (Some ''S'') ''tool-A'' (requestAt ''1000'' ''00'')
     = Inr (Respond ''r1'' 401 ''Request timestamp too old'')
   \<and> onRequest exampleHmac 1300 (Some ''S'') ''tool-A'' (requestAt ''1000'' ''00'')
     = Inr (Respond ''r1'' 401 ''Invalid request signature'')
   \<and> onRequest exampleHmac 1300 (Some ''S'') ''tool-A''
         (requestAt ''1000'' ''mac(mac(S;tool-A);{}1000)'')
     = Inr (Emit ''r1'' (Some (JObject [])) (Some (JString ''e1'')))"
proof -
  note g = gate_checks_in_order [where hmac = exampleHmac and blockId = "''tool-A''"]
  have 1: "onRequest exampleHmac 1300 None ''tool-A'' requestWithoutHeaders
     = Inr (Respond ''r1'' 500 ''App security secret not available'')"
    using g [where secretKey = None and now = 1300 and request = requestWithoutHeaders]
    by (simp add: scenario_defs)
  have 2: "onRequest exampleHmac 1300 (Some ''S'') ''tool-A'' requestWithoutHeaders
     = Inr (Respond ''r1'' 401 ''Missing required security headers'')"
    using g [where secretKey = "Some ''S''" and now = 1300 and request = requestWithoutHeaders]
    by (simp add: scenario_defs)
  have 3: "onRequest exampleHmac 2000 (Some ''S'') ''tool-A'' (requestAt ''1000'' ''00'')
     = Inr (Respond ''r1'' 401 ''Request timestamp too old'')"
    using g [where secretKey = "Some ''S''" and now = 2000 and request = "requestAt ''1000'' ''00''"]
    by (simp add: scenario_defs parseInt_eval)
  have 4: "onRequest exampleHmac 1300 (Some ''S'') ''tool-A'' (requestAt ''1000'' ''00'')
     = Inr (Respond ''r1'' 401 ''Invalid request signature'')"
    using g [where secretKey = "Some ''S''" and now = 1300 and request = "requestAt ''1000'' ''00''"]
    by (simp add: scenario_defs parseInt_eval)
  have 5: "onRequest exampleHmac 1300 (Some ''S'') ''tool-A''
         (requestAt ''1000'' ''mac(mac(S;tool-A);{}1000)'')
     = Inr (Emit ''r1'' (Some (JObject [])) (Some (JString ''e1'')))"
    using g [where secretKey = "Some ''S''" and now = 1300
               and request = "requestAt ''1000'' ''mac(mac(S;tool-A);{}1000)''"]
    by (simp add: scenario_defs parseInt_eval)
  from 1 2 3 4 5 show ?thesis by simp
qed

text \<open>
  C6. The freshness window is inclusive. With the secret and the headers in place and a
  timestamp that \<open>parseInt\<close> reads as \<open>t\<close>: at exactly 300 seconds from \<open>now\<close>, before
  or after, the request is not rejected as too old and goes on to the signature check,
  so that a rightly signed request with an object for a body is emitted; at 301 seconds
  the response is 401.
\<close>

theorem freshness_boundary:
  assumes "secretKey = Some S" and "S \<noteq> []"
    and "headers request EVENT_ID = Some e" and "e \<noteq> []"
    and "headers request TIMESTAMP = Some ts" and "ts \<noteq> []"
    and "headers request SIGNATURE = Some sg" and "sg \<noteq> []"
    and "parseInt ts = Some t"
  shows "(\<bar>now - t\<bar> = 300 \<longrightarrow>
            onRequest hmac now secretKey blockId request
              \<noteq> Inr (Respond (requestId request) 401 ''Request timestamp too old'')
            \<and> (sg \<noteq> hmac (hmac S blockId) (rawBody request @ ts) \<longrightarrow>
                 onRequest hmac now secretKey blockId request
                   = Inr (Respond (requestId request) 401 ''Invalid request signature''))
            \<and> (sg = hmac (hmac S blockId) (rawBody request @ ts)
                   \<and> body request = Some (JObject kvs) \<longrightarrow>
                 onRequest hmac now secretKey blockId request
                   = Inr (Emit (requestId request) (map_of kvs ''parameters'')
                            (map_of kvs ''eventId''))))
         \<and> (\<bar>now - t\<bar> = 301 \<longrightarrow>
            onRequest hmac now secretKey blockId request
              = Inr (Respond (requestId request) 401 ''Request timestamp too old''))"
proof -
  have fresh: "\<bar>now - t\<bar> = 300 \<Longrightarrow> \<not> tooOld now (parseInt ts)"
    and old: "\<bar>now - t\<bar> = 301 \<Longrightarrow> tooOld now (parseInt ts)"
    using assms(9) by (simp_all add: tooOld_def)
  show ?thesis
    using fresh old
    by (auto simp: onRequest_with_headers [OF assms(1-8)] split: option.splits json.splits)
qed

theorem freshness_boundary_witness:
  "onRequest exampleHmac 1300 (Some ''S'') ''tool-A''
       (requestAt ''1000'' ''mac(mac(S;tool-A);{}1000)'')
     = Inr (Emit ''r1'' (Some (JObject [])) (Some (JString ''e1'')))
   \<and> onRequest exampleHmac 700 (Some ''S'') ''tool-A''
       (requestAt ''1000'' ''mac(mac(S;tool-A);{}1000)'')
     = Inr (Emit ''r1'' (Some (JObject [])) (Some (JString ''e1'')))
   \<and> onRequest exampleHmac 1301 (Some ''S'') ''tool-A''
       (requestAt ''1000'' ''mac(mac(S;tool-A);{}1000)'')
     = Inr (Respond ''r1'' 401 ''Request timestamp too old'')
   \<and> onRequest exampleHmac 699 (Some ''S'') ''tool-A''
       (requestAt ''1000'' ''mac(mac(S;tool-A);{}1000)'')
     = Inr (Respond ''r1'' 401 ''Request timestamp too old'')"
proof -
  let ?rq = "requestAt ''1000'' ''mac(mac(S;tool-A);{}1000)''"
  have p: "parseInt ''1000'' = Some 1000"
    by (simp add: parseInt_eval)
  note b = freshness_boundary [where hmac = exampleHmac and secretKey = "Some ''S''"
      and S = "''S''" and blockId = "''tool-A''" and request = ?rq and e = "''e1''"
      and ts = "''1000''" and sg = "''mac(mac(S;tool-A);{}1000)''" and t = 1000
      and kvs = "[(''parameters'', JObject []), (''eventId'', JString ''e1'')]", OF _ _ _ _ _ _ _ _ p]
  show ?thesis
    using b [where now = 1300] b [where now = 700] b [where now = 1301] b [where now = 699]
    by (simp add: scenario_defs)
qed




text \<open>
  C7, as stated: rejections differ by status alone and their message does not tell
  which check failed. Two requests that are both answered 401, one for its missing
  headers and one for its old timestamp, get different messages.
\<close>

theorem rejection_messages_differ:
  "onRequest exampleHmac 2000 (Some ''S'') ''tool-A'' requestWithoutHeaders
     = Inr (Respond ''r1'' 401 ''Missing required security headers'')
   \<and> onRequest exampleHmac 2000 (Some ''S'') ''tool-A'' (requestAt ''1000'' ''00'')
     = Inr (Respond ''r1'' 401 ''Request timestamp too old'')"
  by code_simp

text \<open>
  C7, amended. Every response of the gate answers the request it was given, with status
  500 when the application secret is absent and 401 otherwise, and with a message of
  its own for each check, from which the failed check can be read.
\<close>

theorem rejection_names_the_check:
  assumes "onRequest hmac now secretKey blockId request = Inr (Respond rid st msg)"
  shows "rid = requestId request
    \<and> ((st = 500 \<and> msg = ''App security secret not available'' \<and> falsy secretKey)
       \<or> (st = 401 \<and> msg = ''Missing required security headers'' \<and> \<not> falsy secretKey
            \<and> (falsy (headers request EVENT_ID) \<or> falsy (headers request TIMESTAMP)
                 \<or> falsy (headers request SIGNATURE)))
       \<or> (st = 401 \<and> msg = ''Request timestamp too old'' \<and> \<not> falsy secretKey
            \<and> (\<exists>t. parseInt (text_of (headers request TIMESTAMP)) = Some t
                      \<and> \<bar>now - t\<bar> > 300))
       \<or> (st = 401 \<and> msg = ''Invalid request signature'' \<and> \<not> falsy secretKey
            \<and> text_of (headers request SIGNATURE)
                 \<noteq> hmac (hmac (text_of secretKey) blockId)
                       (rawBody request @ text_of (headers request TIMESTAMP))))"
proof (cases "falsy secretKey")
  case True
  with assms show ?thesis
    by (simp add: onRequest_no_secret)
next
  case secret: False
  show ?thesis
  proof (cases "falsy (headers request EVENT_ID) \<or> falsy (headers request TIMESTAMP)
                  \<or> falsy (headers request SIGNATURE)")
    case True
    with assms secret show ?thesis
      by (simp add: onRequest_missing_header)
  next
    case False
    with secret obtain S e ts sg where
      h: "secretKey = Some S" "S \<noteq> []" "headers request EVENT_ID = Some e" "e \<noteq> []"
        "headers request TIMESTAMP = Some ts" "ts \<noteq> []"
        "headers request SIGNATURE = Some sg" "sg \<noteq> []"
      by (auto simp: not_falsy)
    from assms show ?thesis
      unfolding onRequest_with_headers [OF h] using h
      by (auto simp: tooOld_def split: if_splits option.splits json.splits)
  qed
qed

theorem rejection_names_the_check_witness:
  "onRequest exampleHmac 2000 (Some ''S'') ''tool-A'' (requestAt ''1000'' ''00'')
     = Inr (Respond ''r1'' 401 ''Request timestamp too old'')
   \<and> (\<exists>t. parseInt (text_of (headers (requestAt ''1000'' ''00'') TIMESTAMP)) = Some t
            \<and> \<bar>2000 - t\<bar> > 300)"
proof -
  have h: "onRequest exampleHmac 2000 (Some ''S'') ''tool-A'' (requestAt ''1000'' ''00'')
     = Inr (Respond ''r1'' 401 ''Request timestamp too old'')"
    by code_simp
  from rejection_names_the_check [OF h] h show ?thesis
    by simp
qed

section \<open>Properties of the application\<close>

text \<open>
  C9. Whenever \<open>onSync\<close> returns, with the API key accepted or not, its signal updates
  hold a new \<open>toolSecuritySecret\<close>, the fresh random one, exactly when no secret is set;
  with a secret in place they are empty, so the secret is never replaced. When the
  call to OpenRouter throws, nothing is returned and nothing is written.
\<close>

theorem onSync_keeps_secret:
  assumes "onSync toolSecuritySecret apiKey random fetch = Inr r"
  shows "(falsy toolSecuritySecret \<longrightarrow> signalUpdates r = [''toolSecuritySecret'' \<mapsto> random])
    \<and> (\<not> falsy toolSecuritySecret \<longrightarrow> signalUpdates r = Map.empty)
    \<and> (newStatus r = ''ready'' \<or> newStatus r = ''failed'')"
  using assms
  by (auto simp: onSync_def Let_def split: sum.splits if_splits)

theorem onSync_keeps_secret_witness:
  "(\<exists>r. onSync (Some ''0f'') ''key'' ''a1'' (respondsWith 200 ''OK'' (Inr JNull)) = Inr r
        \<and> newStatus r = ''ready'' \<and> signalUpdates r = Map.empty)
   \<and> (\<exists>r. onSync (Some ''0f'') ''key'' ''a1'' (respondsWith 401 ''Unauthorized'' (Inr JNull)) = Inr r
        \<and> newStatus r = ''failed'' \<and> signalUpdates r = Map.empty)
   \<and> (\<exists>r. onSync None ''key'' ''a1'' (respondsWith 401 ''Unauthorized'' (Inr JNull)) = Inr r
        \<and> newStatus r = ''failed'' \<and> signalUpdates r = [''toolSecuritySecret'' \<mapsto> ''a1''])"
proof -
  have 1: "onSync (Some ''0f'') ''key'' ''a1'' (respondsWith 200 ''OK'' (Inr JNull))
     = Inr \<lparr>newStatus = ''ready'', customStatusDescription = None,
            signalUpdates = Map.empty\<rparr>"
    by (simp add: onSync_def respondsWith_def ok_def)
  have 2: "onSync (Some ''0f'') ''key'' ''a1'' (respondsWith 401 ''Unauthorized'' (Inr JNull))
     = Inr \<lparr>newStatus = ''failed'', customStatusDescription = Some ''See logs for details'',
            signalUpdates = Map.empty\<rparr>"
    by (simp add: onSync_def respondsWith_def ok_def)
  have 3: "onSync None ''key'' ''a1'' (respondsWith 401 ''Unauthorized'' (Inr JNull))
     = Inr \<lparr>newStatus = ''failed'', customStatusDescription = Some ''See logs for details'',
            signalUpdates = [''toolSecuritySecret'' \<mapsto> ''a1'']\<rparr>"
    by (simp add: onSync_def respondsWith_def ok_def)
  from onSync_keeps_secret [OF 1] have "\<exists>r. onSync (Some ''0f'') ''key'' ''a1''
      (respondsWith 200 ''OK'' (Inr JNull)) = Inr r
        \<and> newStatus r = ''ready'' \<and> signalUpdates r = Map.empty"
    by (simp add: 1)
  moreover from onSync_keeps_secret [OF 2] have "\<exists>r. onSync (Some ''0f'') ''key'' ''a1''
      (respondsWith 401 ''Unauthorized'' (Inr JNull)) = Inr r
        \<and> newStatus r = ''failed'' \<and> signalUpdates r = Map.empty"
    by (simp add: 2)
  moreover from onSync_keeps_secret [OF 3] have "\<exists>r. onSync None ''key'' ''a1''
      (respondsWith 401 ''Unauthorized'' (Inr JNull)) = Inr r
        \<and> newStatus r = ''failed'' \<and> signalUpdates r = [''toolSecuritySecret'' \<mapsto> ''a1'']"
    by (simp add: 3)
  ultimately show ?thesis
    by blast
qed

section \<open>Decimal text and \<open>parseInt\<close>\<close>

lemma digit_cases: "d < 10 \<Longrightarrow> d \<in> {0, 1, 2, 3, 4, 5, 6, 7, 8, 9 :: nat}"
  by auto

lemma digit_char_in: "d < 10 \<Longrightarrow> digit_char d \<in> set ''0123456789''"
  by (drule digit_cases) (auto simp: digit_char_def)

lemma digit_in_digit_char: "d < 10 \<Longrightarrow> digit_in 10 (digit_char d) = Some d"
  by (drule digit_cases) (auto simp: digit_char_def digit_in_def digit_value_def)

lemma set_decimal: "set (decimal n) \<subseteq> set ''0123456789''"
proof (induction n rule: decimal.induct)
  case (1 n)
  show ?case
  proof (cases "n < 10")
    case True
    then show ?thesis
      using digit_char_in [of n] by (subst decimal.simps) simp
  next
    case False
    then show ?thesis
      using "1" digit_char_in [of "n mod 10"] by (subst decimal.simps) simp
  qed
qed

lemma decimal_not_Nil: "decimal n \<noteq> []"
  by (subst decimal.simps) simp

lemma parse_digits_decimal:
  "parse_digits 10 (decimal n @ rest) None = parse_digits 10 rest (Some n)"
proof (induction n arbitrary: rest rule: decimal.induct)
  case (1 n)
  show ?case
  proof (cases "n < 10")
    case True
    then show ?thesis
      by (subst decimal.simps) (simp add: digit_in_digit_char)
  next
    case False
    have "parse_digits 10 (decimal n @ rest) None
        = parse_digits 10 (decimal (n div 10) @ digit_char (n mod 10) # rest) None"
      using False by (subst decimal.simps) simp
    also have "\<dots> = parse_digits 10 (digit_char (n mod 10) # rest) (Some (n div 10))"
      using False by (rule "1.IH")
    also have "\<dots> = parse_digits 10 rest (Some n)"
      by (simp add: digit_in_digit_char)
    finally show ?thesis .
  qed
qed

lemma startsWith_set: "startsWith s p \<Longrightarrow> set p \<subseteq> set s"
  by (induction s p rule: startsWith.induct) auto

lemma decimal_no_prefix:
  "\<not> startsWith (decimal n) ''-''" "\<not> startsWith (decimal n) ''+''"
  "\<not> startsWith (decimal n) ''0x''" "\<not> startsWith (decimal n) ''0X''"
  using startsWith_set [of "decimal n" "''-''"] startsWith_set [of "decimal n" "''+''"]
    startsWith_set [of "decimal n" "''0x''"] startsWith_set [of "decimal n" "''0X''"]
    set_decimal [of n]
  by auto

lemma dropWhile_decimal: "dropWhile isWhiteSpace (decimal n) = decimal n"
proof -
  have "hd (decimal n) \<in> set ''0123456789''"
    using set_decimal [of n] decimal_not_Nil [of n] hd_in_set by blast
  then have "\<not> isWhiteSpace (hd (decimal n))"
    by (auto simp: isWhiteSpace_def)
  then show ?thesis
    by (simp add: dropWhile_eq_self_iff)
qed

lemma parseInt_decimal: "parseInt (decimal n) = Some (int n)"
proof -
  have "parse_digits 10 (decimal n) None = Some n"
    using parse_digits_decimal [of n "[]"] by simp
  then show ?thesis
    by (simp add: parseInt_def dropWhile_decimal decimal_no_prefix)
qed

lemma parseInt_minus_decimal: "parseInt (CHR ''-'' # decimal n) = Some (- int n)"
proof -
  have "parse_digits 10 (decimal n) None = Some n"
    using parse_digits_decimal [of n "[]"] by simp
  then show ?thesis
    by (simp add: parseInt_def isWhiteSpace_def decimal_no_prefix)
qed

text \<open>Leading white space, the no-break space included, is not part of the number.\<close>

lemma parseInt_skips_white_space:
  "parseInt (CHR 0xA0 # CHR 0x09 # '' 1000'') = Some 1000"
  by (simp add: parseInt_def isWhiteSpace_def digit_in_def digit_value_def Let_def)

text \<open>What \<open>toString\<close> writes, \<open>parseInt\<close> reads back.\<close>

lemma parseInt_toString: "parseInt (toString n) = Some n"
proof (cases "n < 0")
  case True
  then show ?thesis
    using parseInt_minus_decimal [of "nat (- n)"] by (simp add: toString_def)
next
  case False
  then show ?thesis
    using parseInt_decimal [of "nat n"] by (simp add: toString_def)
qed

lemma toString_not_Nil: "toString n \<noteq> []"
  by (simp add: toString_def decimal_not_Nil)

lemma toString_inj: "toString a = toString b \<Longrightarrow> a = b"
  by (metis parseInt_toString option.inject)

section \<open>Signing and verifying\<close>

text \<open>The headers and body of a signed call, as the tool block receives them.\<close>

lemma received_toolFetchCall:
  "headers (received (toolFetchCall hmac t S eventId body' ts) rid parsed) EVENT_ID
     = Some eventId"
  "headers (received (toolFetchCall hmac t S eventId body' ts) rid parsed) TIMESTAMP
     = Some (toString ts)"
  "headers (received (toolFetchCall hmac t S eventId body' ts) rid parsed) SIGNATURE
     = Some (hmac (hmac S (toolBlockId t)) (body' @ toString ts))"
  "rawBody (received (toolFetchCall hmac t S eventId body' ts) rid parsed) = body'"
  "requestId (received (toolFetchCall hmac t S eventId body' ts) rid parsed) = rid"
  "body (received (toolFetchCall hmac t S eventId body' ts) rid parsed) = parsed"
  by (simp_all add: received_def toolFetchCall_def Let_def signRequest_def
      generateFlowSecret_def EVENT_ID_def TIMESTAMP_def SIGNATURE_def)

text \<open>
  C2. A call that the bridge signs for the tool with block id \<open>toolBlockId t\<close> under the
  application secret \<open>S\<close>, with any body and a timestamp within 300 seconds of the
  gate's clock, passes the gate of that block under the same secret: the recomputed
  signature is the one supplied, and the payload is emitted. The gate of a block with
  another id \<open>B\<close> answers 401 for the signature. The keyed hash is a parameter; what
  is asked of it is what HMAC-SHA-256 gives: a digest is never empty, and the two
  signatures, under the keys derived for the two ids, do not collide.
\<close>

theorem signed_call_verified_by_own_gate_only:
  fixes hmac :: hmac
  assumes secret: "S \<noteq> []" and event: "eventId \<noteq> []"
    and window: "\<bar>now - ts\<bar> \<le> 300"
    and digest: "\<forall>key data. hmac key data \<noteq> []"
    and rq: "request = received (toolFetchCall hmac t S eventId body' ts) rid
                         (Some (JObject kvs))"
  shows "onRequest hmac now (Some S) (toolBlockId t) request
           = Inr (Emit rid (map_of kvs ''parameters'') (map_of kvs ''eventId''))
    \<and> (hmac (hmac S B) (body' @ toString ts)
          \<noteq> hmac (hmac S (toolBlockId t)) (body' @ toString ts) \<longrightarrow>
        onRequest hmac now (Some S) B request
          = Inr (Respond rid 401 ''Invalid request signature''))"
proof -
  let ?sg = "hmac (hmac S (toolBlockId t)) (body' @ toString ts)"
  have fresh: "\<not> tooOld now (parseInt (toString ts))"
    using window by (simp add: parseInt_toString tooOld_def)
  have gate: "onRequest hmac now (Some S) blockId request =
     (if ?sg \<noteq> hmac (hmac S blockId) (body' @ toString ts) then
        Inr (Respond rid 401 ''Invalid request signature'')
      else Inr (Emit rid (map_of kvs ''parameters'') (map_of kvs ''eventId'')))"
    for blockId
  proof -
    have "onRequest hmac now (Some S) blockId request =
       (if tooOld now (parseInt (toString ts)) then
          Inr (Respond (requestId request) 401 ''Request timestamp too old'')
        else if ?sg \<noteq> hmac (hmac S blockId) (rawBody request @ toString ts) then
          Inr (Respond (requestId request) 401 ''Invalid request signature'')
        else
          (case body request of
             None \<Rightarrow> Inl TypeErr
           | Some JNull \<Rightarrow> Inl TypeErr
           | Some b \<Rightarrow>
               Inr (Emit (requestId request) (property b ''parameters'')
                      (property b ''eventId''))))"
      by (rule onRequest_with_headers [where e = eventId])
         (simp_all add: rq received_toolFetchCall secret event toString_not_Nil digest)
    then show ?thesis
      using fresh by (simp add: rq received_toolFetchCall)
  qed
  show ?thesis
    by (auto simp: gate)
qed

theorem signed_call_verified_by_own_gate_only_witness:
  "onRequest exampleHmac 1200 (Some ''S'') ''tool-A''
       (received (toolFetchCall exampleHmac toolA ''S'' ''e1'' ''{}'' 1000) ''r1''
          (Some (JObject [(''parameters'', JObject []), (''eventId'', JString ''e1'')])))
     = Inr (Emit ''r1'' (Some (JObject [])) (Some (JString ''e1'')))
   \<and> onRequest exampleHmac 1200 (Some ''S'') ''tool-B''
       (received (toolFetchCall exampleHmac toolA ''S'' ''e1'' ''{}'' 1000) ''r1''
          (Some (JObject [(''parameters'', JObject []), (''eventId'', JString ''e1'')])))
     = Inr (Respond ''r1'' 401 ''Invalid request signature'')"
proof -
  have digest: "\<forall>key data. exampleHmac key data \<noteq> []"
    by (simp add: exampleHmac_def)
  have distinct: "exampleHmac (exampleHmac ''S'' ''tool-B'') (''{}'' @ toString 1000)
      \<noteq> exampleHmac (exampleHmac ''S'' (toolBlockId toolA)) (''{}'' @ toString 1000)"
    by (simp add: exampleHmac_def toolA_def)
  have "(''S'' :: string) \<noteq> []" and "(''e1'' :: string) \<noteq> []"
    and "\<bar>1200 - 1000 :: int\<bar> \<le> 300"
    by simp_all
  from signed_call_verified_by_own_gate_only [OF this digest refl, of toolA "''{}''" "''r1''"
      "[(''parameters'', JObject []), (''eventId'', JString ''e1'')]" "''tool-B''"] distinct
  show ?thesis
    by (simp add: toolA_def)
qed

section \<open>Properties of the tool invocation bridge\<close>

lemma js_includes_skip:
  "p \<notin> set xs \<Longrightarrow> js_includes (xs @ ys) (p # ps) = js_includes ys (p # ps)"
  by (induction xs) auto

lemma not_in_toString:
  assumes "c \<notin> set ''-0123456789''"
  shows "c \<notin> set (toString n)"
proof -
  have "c \<noteq> CHR ''-''" and digits: "c \<notin> set ''0123456789''"
    using assms by simp_all
  moreover have "c \<notin> set (decimal m)" for m
    using set_decimal [of m] digits by blast
  ultimately show ?thesis
    by (simp add: toString_def)
qed

lemma toString_three_digits:
  assumes "100 \<le> n" and "n \<le> 999"
  shows "length (toString n) = 3"
proof -
  let ?m = "nat n"
  have m: "100 \<le> ?m" "?m \<le> 999"
    using assms by simp_all
  then have "\<not> ?m < 10" "\<not> ?m div 10 < 10" "?m div 10 div 10 < 10"
    by simp_all
  then have "length (decimal ?m) = 3"
    by (simp add: decimal.simps [of ?m] decimal.simps [of "?m div 10"]
        decimal.simps [of "?m div 10 div 10"])
  then show ?thesis
    using assms by (simp add: toString_def)
qed

lemma toString_504: "toString 504 = ''504''"
  by (simp add: toString_def decimal.simps digit_char_def)

lemma startsWith_three:
  "length s = 3 \<Longrightarrow> startsWith (s @ r) [x, y, z] \<longleftrightarrow> s = [x, y, z]"
  by (cases s; cases "tl s"; cases "tl (tl s)") auto

text \<open>
  The message of a failed response holds a retry pattern when the status is 504 or the
  status text holds one.
\<close>

lemma http_message_matches:
  assumes "100 \<le> st" and "st \<le> 999"
  shows "matchesRetryPattern (''HTTP '' @ toString st @ '': '' @ txt)
           \<longleftrightarrow> st = 504 \<or> matchesRetryPattern txt"
proof -
  let ?rest = "''TTP '' @ toString st @ '': ''"
  have H: "CHR ''H'' \<notin> set ?rest" and t: "CHR ''t'' \<notin> set (CHR ''H'' # ?rest)"
    and E: "CHR ''E'' \<notin> set (CHR ''H'' # ?rest)"
    by (simp_all add: not_in_toString)
  have msg: "''HTTP '' @ toString st @ '': '' @ txt = (CHR ''H'' # ?rest) @ txt"
    by simp
  have "startsWith (toString st @ '': '' @ txt) ''504'' \<longleftrightarrow> toString st = ''504''"
    by (rule startsWith_three) (rule toString_three_digits [OF assms])
  also have "\<dots> \<longleftrightarrow> st = 504"
    using toString_inj [of st 504] by (auto simp: toString_504)
  finally have at_start: "startsWith (''HTTP '' @ toString st @ '': '' @ txt) ''HTTP 504''
      \<longleftrightarrow> st = 504"
    by simp
  have "js_includes (?rest @ txt) ''HTTP 504'' = js_includes txt ''HTTP 504''"
    by (rule js_includes_skip [OF H])
  with at_start have 1: "js_includes (''HTTP '' @ toString st @ '': '' @ txt) ''HTTP 504''
      \<longleftrightarrow> st = 504 \<or> js_includes txt ''HTTP 504''"
    by simp
  have 2: "js_includes (''HTTP '' @ toString st @ '': '' @ txt) ''timeout''
      = js_includes txt ''timeout''"
    unfolding msg by (rule js_includes_skip [OF t])
  have 3: "js_includes (''HTTP '' @ toString st @ '': '' @ txt) ''ECONNRESET''
      = js_includes txt ''ECONNRESET''"
    unfolding msg by (rule js_includes_skip [OF E])
  have 4: "js_includes (''HTTP '' @ toString st @ '': '' @ txt) ''ENOTFOUND''
      = js_includes txt ''ENOTFOUND''"
    unfolding msg by (rule js_includes_skip [OF E])
  show ?thesis
    unfolding matchesRetryPattern_def 1 2 3 4 by blast
qed

text \<open>
  C8, as stated: a failed response is retryable when its status is 504 and fatal for
  any other status. A 503 whose status text says \<open>upstream timeout\<close> gives a message
  that holds the pattern \<open>timeout\<close>, so the executor takes it for retryable: a tool
  that keeps answering so is called three times.
\<close>

theorem other_status_retryable_by_status_text:
  "toolCall exampleHmac exampleStringify (respondsWith 503 ''upstream timeout'' (Inr JNull))
       1000 toolA ''S'' ''e1'' (JObject [])
     = Inl (ErrorObj ''HTTP 503: upstream timeout'')
   \<and> matchesRetryPattern ''HTTP 503: upstream timeout''
   \<and> invocations
         (snd (execute exampleHmac exampleStringify
                 (alwaysResponds 503 ''upstream timeout'' (Inr JNull)) steadyClock
                 toolA ''e1'' ''p1'' ''S'' (JObject [])))
       = [1, 2, 3]"
  by code_simp

text \<open>
  C8, amended. When \<open>fetch\<close> gives a response: one that is not 2xx makes the operation
  throw an error with the message \<open>HTTP <status>: <statusText>\<close>; the executor takes
  it for retryable when the status is 504, and for fatal when the status is another
  three-digit one and the status text holds none of the four patterns. On a 2xx
  response with a JSON body that is not \<open>null\<close>, the \<open>result\<close> property of the body
  is returned, serialised.
\<close>

theorem toolCall_outcomes:
  fixes stringify :: "json \<Rightarrow> string"
  assumes response: "fetch (toolFetchCall hmac t secretKey eventId
             (stringify (JObject [(''parameters'', parameters), (''eventId'', JString eventId)]))
             timestamp) = Inr response"
  shows "(\<not> ok response \<longrightarrow>
            toolCall hmac stringify fetch timestamp t secretKey eventId parameters
              = Inl (ErrorObj (''HTTP '' @ toString (status response) @ '': ''
                                 @ statusText response)))
    \<and> (status response = 504 \<longrightarrow>
          failsRetryably (toolCall hmac stringify fetch timestamp t secretKey eventId parameters))
    \<and> (\<not> ok response \<and> 100 \<le> status response \<and> status response \<le> 999
          \<and> status response \<noteq> 504 \<and> \<not> matchesRetryPattern (statusText response) \<longrightarrow>
          \<not> failsRetryably (toolCall hmac stringify fetch timestamp t secretKey eventId parameters))
    \<and> (\<forall>v. ok response \<and> json_of response = Inr v \<and> v \<noteq> JNull \<longrightarrow>
          toolCall hmac stringify fetch timestamp t secretKey eventId parameters
            = Inr (map_option stringify (property v ''result'')))"
proof -
  let ?out = "toolCall hmac stringify fetch timestamp t secretKey eventId parameters"
  let ?msg = "''HTTP '' @ toString (status response) @ '': '' @ statusText response"
  have failed: "?out = Inl (ErrorObj ?msg)" if "\<not> ok response"
    using that response by (simp add: toolCall_def Let_def)
  have retryable: "failsRetryably ?out" if "status response = 504"
  proof -
    from that have "\<not> ok response"
      by (simp add: ok_def)
    moreover have "matchesRetryPattern ?msg"
      using that http_message_matches [of 504 "statusText response"] by simp
    ultimately show ?thesis
      by (simp add: failed failsRetryably_def)
  qed
  have fatal: "\<not> failsRetryably ?out"
    if "\<not> ok response" and "100 \<le> status response" and "status response \<le> 999"
      and "status response \<noteq> 504" and "\<not> matchesRetryPattern (statusText response)"
    using that http_message_matches [of "status response" "statusText response"]
    by (simp add: failed failsRetryably_def)
  have success: "?out = Inr (map_option stringify (property v ''result''))"
    if "ok response" and "json_of response = Inr v" and "v \<noteq> JNull" for v
    using that response by (cases v) (simp_all add: toolCall_def Let_def)
  from failed retryable fatal success show ?thesis
    by blast
qed

theorem toolCall_outcomes_witness:
  "failsRetryably
     (toolCall exampleHmac exampleStringify (respondsWith 504 ''Gateway Timeout'' (Inr JNull))
        1000 toolA ''S'' ''e1'' (JObject []))
   \<and> toolCall exampleHmac exampleStringify (respondsWith 403 ''Forbidden'' (Inr JNull))
        1000 toolA ''S'' ''e1'' (JObject [])
     = Inl (ErrorObj (''HTTP '' @ toString 403 @ '': Forbidden''))
   \<and> \<not> failsRetryably
        (toolCall exampleHmac exampleStringify (respondsWith 403 ''Forbidden'' (Inr JNull))
           1000 toolA ''S'' ''e1'' (JObject []))
   \<and> toolCall exampleHmac exampleStringify
        (respondsWith 200 ''OK'' (Inr (JObject [(''result'', JString ''42'')])))
        1000 toolA ''S'' ''e1'' (JObject [])
     = Inr (Some ''42'')"
proof -
  note w = toolCall_outcomes [where hmac = exampleHmac and stringify = exampleStringify
      and timestamp = 1000 and t = toolA and secretKey = "''S''" and eventId = "''e1''"
      and parameters = "JObject []"]
  have "failsRetryably
     (toolCall exampleHmac exampleStringify (respondsWith 504 ''Gateway Timeout'' (Inr JNull))
        1000 toolA ''S'' ''e1'' (JObject []))"
    using w [where fetch = "respondsWith 504 ''Gateway Timeout'' (Inr JNull)"
               and response = "\<lparr>status = 504, statusText = ''Gateway Timeout'',
                                  json_of = Inr JNull\<rparr>"]
    by (simp add: respondsWith_def)
  moreover have "toolCall exampleHmac exampleStringify (respondsWith 403 ''Forbidden'' (Inr JNull))
        1000 toolA ''S'' ''e1'' (JObject [])
     = Inl (ErrorObj (''HTTP '' @ toString 403 @ '': Forbidden''))
   \<and> \<not> failsRetryably
        (toolCall exampleHmac exampleStringify (respondsWith 403 ''Forbidden'' (Inr JNull))
           1000 toolA ''S'' ''e1'' (JObject []))"
    using w [where fetch = "respondsWith 403 ''Forbidden'' (Inr JNull)"
               and response = "\<lparr>status = 403, statusText = ''Forbidden'',
                                  json_of = Inr JNull\<rparr>"]
    by (auto simp: respondsWith_def ok_def matchesRetryPattern_def)
  moreover have "toolCall exampleHmac exampleStringify
        (respondsWith 200 ''OK'' (Inr (JObject [(''result'', JString ''42'')])))
        1000 toolA ''S'' ''e1'' (JObject [])
     = Inr (Some ''42'')"
    using w [where fetch = "respondsWith 200 ''OK'' (Inr (JObject [(''result'', JString ''42'')]))"
               and response = "\<lparr>status = 200, statusText = ''OK'',
                                  json_of = Inr (JObject [(''result'', JString ''42'')])\<rparr>"]
    by (simp add: respondsWith_def ok_def exampleStringify_def)
  ultimately show ?thesis
    by blast
qed

end
